theory Spec2Isabelle
  imports Main "HOL-Library.Word"
begin

unbundle bit_operations_syntax

section \<open>Machine types\<close>

type_synonym u8 = "8 word"
type_synonym u16 = "16 word"

text \<open>
  A \<open>__le16\<close> field is modelled by its two bytes in memory order (lowest address first),
  so that byte order is visible and no host endianness is assumed.
\<close>

type_synonym le16 = "u8 \<times> u8"

definition cpu_to_le16 :: "u16 \<Rightarrow> le16" where
  "cpu_to_le16 x = (ucast x, ucast (drop_bit 8 x))"

definition le16_to_cpu :: "le16 \<Rightarrow> u16" where
  "le16_to_cpu b = (ucast (fst b) OR push_bit 8 (ucast (snd b)))"

section \<open>The table of known wheels (tminit.c)\<close>

record tm_wheel_info =
  model :: u8
  attachment :: u8
  switch_value :: u16
  wheel_name :: string

definition mk_info :: "u8 \<Rightarrow> u8 \<Rightarrow> u16 \<Rightarrow> string \<Rightarrow> tm_wheel_info" where
  "mk_info m a s n = \<lparr>model = m, attachment = a, switch_value = s, wheel_name = n\<rparr>"

definition tm_wheels_infos :: "tm_wheel_info list" where
  "tm_wheels_infos =
    [mk_info 0x00 0x02 0x0002 ''Thrustmaster T500RS'',
     mk_info 0x02 0x00 0x0005 ''Thrustmaster T300RS (Missing Attachment)'',
     mk_info 0x02 0x03 0x0005 ''Thrustmaster T300RS (F1 attachment)'',
     mk_info 0x02 0x04 0x0005 ''Thrustmaster T300 Ferrari Alcantara Edition'',
     mk_info 0x02 0x06 0x0005 ''Thrustmaster T300RS'',
     mk_info 0x02 0x09 0x0005 ''Thrustmaster T300RS (Open Wheel Attachment)'',
     mk_info 0x03 0x06 0x0006 ''Thrustmaster T150RS'',
     mk_info 0x00 0x09 0x000b ''Thrustmaster T128'']"

definition tm_wheels_infos_length :: nat where
  "tm_wheels_infos_length = 8"

section \<open>The two scans of thrustmaster_model_handler\<close>

text \<open>
  A pointer \<open>tm_wheels_infos + i\<close> is the index \<open>i\<close>; the null pointer is \<open>None\<close>.
  The scans take the table and its length as arguments; the handler passes
  \<open>tm_wheels_infos\<close> and \<open>tm_wheels_infos_length\<close>.

  First scan:
  \<^verbatim>\<open>for (i = 0; i < tm_wheels_infos_length && !twi; i++)
        if (tm_wheels_infos[i].model == model) twi = tm_wheels_infos + i;\<close>
  The result is the final value of \<open>i\<close> together with \<open>twi\<close>.
\<close>

function find_model :: "tm_wheel_info list \<Rightarrow> nat \<Rightarrow> u8 \<Rightarrow> nat \<Rightarrow> nat option \<Rightarrow> nat \<times> nat option" where
  "find_model tbl n m i twi =
     (if i < n \<and> twi = None
      then find_model tbl n m (Suc i) (if model (tbl ! i) = m then Some i else twi)
      else (i, twi))"
  by pat_completeness auto
termination
  by (relation "measure (\<lambda>(tbl, n, m, i, twi). n - i)") auto

text \<open>
  Second scan, entered with \<open>attachment_found = (twi->attachment == attachment)\<close>:
  \<^verbatim>\<open>for (...; !attachment_found && i < tm_wheels_infos_length
             && tm_wheels_infos[i].model == model; i++)
        if (tm_wheels_infos[i].attachment == attachment) {
            twi = tm_wheels_infos + i; attachment_found = 1; }\<close>
  The result is \<open>twi\<close> together with \<open>attachment_found\<close>.
\<close>

function find_attachment ::
  "tm_wheel_info list \<Rightarrow> nat \<Rightarrow> u8 \<Rightarrow> u8 \<Rightarrow> nat \<Rightarrow> nat \<Rightarrow> bool \<Rightarrow> nat \<times> bool" where
  "find_attachment tbl n m a i twi found =
     (if \<not> found \<and> i < n \<and> model (tbl ! i) = m
      then (if attachment (tbl ! i) = a
            then find_attachment tbl n m a (Suc i) i True
            else find_attachment tbl n m a (Suc i) twi found)
      else (twi, found))"
  by pat_completeness auto
termination
  by (relation "measure (\<lambda>(tbl, n, m, a, i, twi, found). n - i)") auto

text \<open>
  Both scans in sequence: \<open>None\<close> when no entry has the model (the handler's
  "Unknown wheel's model id" branch), otherwise the selected index and \<open>attachment_found\<close>.
\<close>

definition resolve_in :: "tm_wheel_info list \<Rightarrow> nat \<Rightarrow> u8 \<Rightarrow> u8 \<Rightarrow> (nat \<times> bool) option" where
  "resolve_in tbl n m a =
     (case find_model tbl n m 0 None of
        (i, None) \<Rightarrow> None
      | (i, Some twi) \<Rightarrow>
          Some (find_attachment tbl n m a i twi (attachment (tbl ! twi) = a)))"

definition resolve :: "u8 \<Rightarrow> u8 \<Rightarrow> (nat \<times> bool) option" where
  "resolve m a = resolve_in tm_wheels_infos tm_wheels_infos_length m a"

section \<open>The response to request 73 (tminit.h)\<close>

text \<open>
  \<open>struct __packed tm_wheel_response\<close>: a 16-bit \<open>type\<close> followed by the union of the
  packed layouts \<open>a\<close> and \<open>b\<close>. A layout is the list of its fields with their sizes in
  bytes; packing puts each field right after the previous one.
\<close>

type_synonym layout = "(string \<times> nat) list"

definition layout_a :: layout where
  "layout_a = [(''field0'', 2), (''field1'', 2), (''attachment'', 1), (''model'', 1),
               (''field2'', 2), (''field3'', 2), (''field4'', 2), (''field5'', 2)]"

definition layout_b :: layout where
  "layout_b = [(''field0'', 2), (''field1'', 2), (''attachment'', 1), (''model'', 1)]"

fun offset_of :: "layout \<Rightarrow> string \<Rightarrow> nat" where
  "offset_of [] f = 0"
| "offset_of ((g, sz) # fs) f = (if g = f then 0 else sz + offset_of fs f)"

definition size_of :: "layout \<Rightarrow> nat" where
  "size_of l = sum_list (map snd l)"

definition type_offset :: nat where
  "type_offset = 0"

definition data_offset :: nat where
  "data_offset = 2"

definition sizeof_tm_wheel_response :: nat where
  "sizeof_tm_wheel_response = data_offset + max (size_of layout_a) (size_of layout_b)"

text \<open>
  The response buffer is a byte list. A read outside the buffer is undefined behaviour
  in C; here it is the value \<open>None\<close>.
\<close>

definition peek :: "u8 list \<Rightarrow> nat \<Rightarrow> u8 option" where
  "peek buf off = (if off < length buf then Some (buf ! off) else None)"

definition response_type :: "u8 list \<Rightarrow> le16 option" where
  "response_type buf =
     (case (peek buf type_offset, peek buf (type_offset + 1)) of
        (Some b0, Some b1) \<Rightarrow> Some (b0, b1)
      | _ \<Rightarrow> None)"

definition data_a_model :: "u8 list \<Rightarrow> u8 option" where
  "data_a_model buf = peek buf (data_offset + offset_of layout_a ''model'')"

definition data_a_attachment :: "u8 list \<Rightarrow> u8 option" where
  "data_a_attachment buf = peek buf (data_offset + offset_of layout_a ''attachment'')"

definition data_b_model :: "u8 list \<Rightarrow> u8 option" where
  "data_b_model buf = peek buf (data_offset + offset_of layout_b ''model'')"

definition data_b_attachment :: "u8 list \<Rightarrow> u8 option" where
  "data_b_attachment buf = peek buf (data_offset + offset_of layout_b ''attachment'')"

text \<open>
  The type dispatch at the head of thrustmaster_model_handler:
  \<open>Fields m a\<close> carries the handler's locals \<open>model\<close> and \<open>attachment\<close>,
  \<open>Unknown_type t\<close> is the "Unknown packet type" branch with the raw type field.
\<close>

datatype decoded = Fields u8 u8 | Unknown_type le16

definition response_decode :: "u8 list \<Rightarrow> decoded option" where
  "response_decode buf =
     (case response_type buf of
        None \<Rightarrow> None
      | Some t \<Rightarrow>
          if t = cpu_to_le16 0x49 then
            (case (data_a_model buf, data_a_attachment buf) of
               (Some m, Some a) \<Rightarrow> Some (Fields m a)
             | _ \<Rightarrow> None)
          else if t = cpu_to_le16 0x47 then
            (case (data_b_model buf, data_b_attachment buf) of
               (Some m, Some a) \<Rightarrow> Some (Fields m a)
             | _ \<Rightarrow> None)
          else Some (Unknown_type t))"

section \<open>Control requests, URBs and what the driver does to the outside\<close>

record usb_ctrlrequest =
  bRequestType :: u8
  bRequest :: u8
  wValue :: le16
  wIndex :: le16
  wLength :: le16

definition model_request :: usb_ctrlrequest where
  "model_request = \<lparr>bRequestType = 0xc1, bRequest = 73, wValue = (0, 0), wIndex = (0, 0),
                     wLength = cpu_to_le16 0x0010\<rparr>"

definition change_request :: usb_ctrlrequest where
  "change_request = \<lparr>bRequestType = 0x41, bRequest = 83, wValue = (0, 0), wIndex = (0, 0),
                      wLength = (0, 0)\<rparr>"

datatype pipe = Sndctrlpipe | Rcvctrlpipe

datatype callback = Model_handler | Change_handler

record urb =
  urb_pipe :: pipe
  setup_packet :: usb_ctrlrequest
  transfer_buffer_length :: nat
  complete :: callback

datatype log_msg =
    Failed_allocating_send_buffer
  | Wrong_number_of_endpoints
  | Setup_data_not_sent
  | Wheel_initialized
  | Change_urb_failed int
  | Submit_change_error int
  | Model_urb_failed int
  | Unknown_packet_type le16
  | Wheel_is u8 u8 string bool
  | Unknown_model_id u8
  | Submit_urb_error int

text \<open>
  The driver's visible actions, in the order it performs them: log lines,
  \<open>usb_interrupt_msg\<close> calls (endpoint address, bytes, return value) and
  \<open>usb_submit_urb\<close> calls (the URB as filled, return value).
\<close>

datatype event =
    Dev_err log_msg
  | Dev_info log_msg
  | Dev_warn log_msg
  | Usb_interrupt_msg u8 "u8 list" int
  | Usb_submit_urb urb int

text \<open>
  What the kernel and the device answer: which allocations succeed, the descriptors,
  the return values of the USB calls and the completion status and data of each URB.
\<close>

record usb_env =
  urb_alloc_ok :: bool
  model_request_alloc_ok :: bool
  response_alloc_ok :: bool
  change_request_alloc_ok :: bool
  idProduct :: le16
  send_buf_alloc_ok :: bool
  bNumEndpoints :: u8
  bEndpointAddress :: u8
  interrupt_msg_ret :: "nat \<Rightarrow> int"
  submit_query_ret :: int
  query_status :: int
  query_data :: "u8 list"
  submit_change_ret :: int
  change_status :: int

text \<open>Linux errno values (asm-generic).\<close>

definition ENOMEM :: int where "ENOMEM = 12"
definition EPIPE :: int where "EPIPE = 32"
definition EPROTO :: int where "EPROTO = 71"

section \<open>thrustmaster_interrupts\<close>

definition setup_0 :: "u8 list" where
  "setup_0 = [0x42, 0x01, 0x00, 0x00, 0x00, 0x00, 0x00, 0x00, 0x00]"

definition setup_1 :: "u8 list" where
  "setup_1 = [0x0a, 0x04, 0x90, 0x03, 0x00, 0x00, 0x00, 0x00]"

definition setup_2 :: "u8 list" where
  "setup_2 = [0x0a, 0x04, 0x00, 0x0c, 0x00, 0x00, 0x00, 0x00]"

definition setup_3 :: "u8 list" where
  "setup_3 = [0x0a, 0x04, 0x12, 0x10, 0x00, 0x00, 0x00, 0x00]"

definition setup_4 :: "u8 list" where
  "setup_4 = [0x0a, 0x04, 0x00, 0x06, 0x00, 0x00, 0x00, 0x00]"

definition setup_arr :: "u8 list list" where
  "setup_arr = [setup_0, setup_1, setup_2, setup_3, setup_4]"

definition setup_arr_sizes :: "nat list" where
  "setup_arr_sizes = [length setup_0, length setup_1, length setup_2, length setup_3,
                      length setup_4]"

text \<open>
  The loop over \<open>setup_arr\<close>, from index \<open>i\<close>: each packet is copied into the send
  buffer and sent with \<open>usb_interrupt_msg\<close>, which returns only when the transfer has
  finished; a nonzero return logs and leaves the function.
\<close>

function interrupts_loop :: "usb_env \<Rightarrow> nat \<Rightarrow> event list" where
  "interrupts_loop env i =
     (if i < length setup_arr
      then Usb_interrupt_msg (bEndpointAddress env)
             (take (setup_arr_sizes ! i) (setup_arr ! i)) (interrupt_msg_ret env i)
           # (if interrupt_msg_ret env i \<noteq> 0 then [Dev_err Setup_data_not_sent]
              else interrupts_loop env (Suc i))
      else [])"
  by pat_completeness auto
termination
  by (relation "measure (\<lambda>(env, i). length setup_arr - i)") auto

definition thrustmaster_interrupts :: "usb_env \<Rightarrow> event list" where
  "thrustmaster_interrupts env =
     (if \<not> send_buf_alloc_ok env then [Dev_err Failed_allocating_send_buffer]
      else if bNumEndpoints env < 2 then [Dev_err Wrong_number_of_endpoints]
      else interrupts_loop env 0)"

section \<open>The completion handlers and the probe\<close>

definition thrustmaster_change_handler :: "int \<Rightarrow> event list" where
  "thrustmaster_change_handler status =
     (if status = 0 \<or> status = - EPROTO \<or> status = - EPIPE
      then [Dev_info Wheel_initialized]
      else [Dev_warn (Change_urb_failed status)])"

definition thrustmaster_submit_change :: "usb_env \<Rightarrow> u16 \<Rightarrow> int \<times> event list" where
  "thrustmaster_submit_change env sv =
     (let req = change_request\<lparr>wValue := cpu_to_le16 sv\<rparr>;
          u = \<lparr>urb_pipe = Sndctrlpipe, setup_packet = req, transfer_buffer_length = 0,
               complete = Change_handler\<rparr>;
          ret = submit_change_ret env
      in (ret, Usb_submit_urb u ret
               # (if ret \<noteq> 0 then [Dev_err (Submit_change_error ret)] else [])))"

text \<open>
  thrustmaster_model_handler, given \<open>urb->status\<close> and the response buffer.
  \<open>None\<close> stands for a read outside the buffer.
\<close>

definition thrustmaster_model_handler :: "usb_env \<Rightarrow> int \<Rightarrow> u8 list \<Rightarrow> event list option" where
  "thrustmaster_model_handler env status response =
     (if status \<noteq> 0 then Some [Dev_err (Model_urb_failed status)]
      else case response_decode response of
             None \<Rightarrow> None
           | Some (Unknown_type t) \<Rightarrow> Some [Dev_err (Unknown_packet_type t)]
           | Some (Fields m a) \<Rightarrow>
               (case resolve m a of
                  None \<Rightarrow> Some [Dev_err (Unknown_model_id m)]
                | Some (twi, found) \<Rightarrow>
                    Some (Dev_info (Wheel_is m a (wheel_name (tm_wheels_infos ! twi)) found)
                          # snd (thrustmaster_submit_change env
                                   (switch_value (tm_wheels_infos ! twi))))))"

definition query_urb :: urb where
  "query_urb = \<lparr>urb_pipe = Rcvctrlpipe, setup_packet = model_request,
                 transfer_buffer_length = sizeof_tm_wheel_response,
                 complete = Model_handler\<rparr>"

text \<open>
  thrustmaster_probe: the return value and the actions. The releases on the error
  paths (kfree, usb_free_urb, usb_put_dev) are not recorded.
\<close>

definition thrustmaster_probe :: "usb_env \<Rightarrow> int \<times> event list" where
  "thrustmaster_probe env =
     (if \<not> urb_alloc_ok env then (- ENOMEM, [])
      else if \<not> model_request_alloc_ok env then (- ENOMEM, [])
      else if \<not> response_alloc_ok env then (- ENOMEM, [])
      else if \<not> change_request_alloc_ok env then (- ENOMEM, [])
      else if le16_to_cpu (idProduct env) = 0xb69c
           then thrustmaster_submit_change env 0x000b
      else (let ev = thrustmaster_interrupts env;
                ret = submit_query_ret env
            in (ret, ev @ Usb_submit_urb query_urb ret
                        # (if ret \<noteq> 0 then [Dev_err (Submit_urb_error ret)] else []))))"

section \<open>A session: the probe and the completions that follow\<close>

text \<open>
  The USB core, as the driver relies on it: a URB that \<open>usb_submit_urb\<close> accepted
  (return value 0) completes once, by a call of its \<open>complete\<close> callback; a refused URB
  never completes. A query URB writes at most \<open>transfer_buffer_length\<close> bytes into the
  zeroed response buffer.
\<close>

fun in_flight :: "event list \<Rightarrow> callback option" where
  "in_flight [] = None"
| "in_flight (Usb_submit_urb u r # es) =
     (case in_flight es of Some cb \<Rightarrow> Some cb
      | None \<Rightarrow> if r = 0 then Some (complete u) else None)"
| "in_flight (e # es) = in_flight es"

definition kzalloc :: "nat \<Rightarrow> u8 list" where
  "kzalloc n = replicate n 0"

definition usb_receive :: "u8 list \<Rightarrow> u8 list \<Rightarrow> u8 list" where
  "usb_receive buf data = take (length buf) data @ drop (length data) buf"

definition response_buffer :: "usb_env \<Rightarrow> u8 list" where
  "response_buffer env = usb_receive (kzalloc sizeof_tm_wheel_response) (query_data env)"

datatype step = Crash | Act event

definition completion :: "usb_env \<Rightarrow> callback \<Rightarrow> event list option" where
  "completion env cb =
     (case cb of
        Model_handler \<Rightarrow> thrustmaster_model_handler env (query_status env) (response_buffer env)
      | Change_handler \<Rightarrow> Some (thrustmaster_change_handler (change_status env)))"

text \<open>
  The chain of completions started by the callback \<open>cb\<close>. It ends because the model
  handler only ever leaves a change URB in flight and the change handler leaves none.
\<close>

function run_urb :: "usb_env \<Rightarrow> callback \<Rightarrow> step list" where
  "run_urb env cb =
     (case completion env cb of
        None \<Rightarrow> [Crash]
      | Some ev \<Rightarrow>
          map Act ev @ (case in_flight ev of None \<Rightarrow> [] | Some cb' \<Rightarrow> run_urb env cb'))"
  by pat_completeness auto
termination
proof (relation "measure (\<lambda>(env, cb). case cb of Model_handler \<Rightarrow> Suc 0 | Change_handler \<Rightarrow> 0)")
  show "wf (measure (\<lambda>(env, cb). case cb of Model_handler \<Rightarrow> Suc 0 | Change_handler \<Rightarrow> 0))"
    by simp
next
  fix env :: usb_env and cb :: callback and ev :: "event list" and cb' :: callback
  assume c: "completion env cb = Some ev" and f: "in_flight ev = Some cb'"
  show "((env, cb'), (env, cb))
          \<in> measure (\<lambda>(env, cb). case cb of Model_handler \<Rightarrow> Suc 0 | Change_handler \<Rightarrow> 0)"
  proof (cases cb)
    case Change_handler
    with c f show ?thesis
      by (auto simp: completion_def thrustmaster_change_handler_def split: if_splits)
  next
    case Model_handler
    with c f have "cb' = Change_handler"
      by (auto simp: completion_def thrustmaster_model_handler_def
            thrustmaster_submit_change_def Let_def
          split: if_splits option.splits decoded.splits prod.splits)
    with Model_handler show ?thesis by simp
  qed
qed

definition session :: "usb_env \<Rightarrow> step list" where
  "session env =
     (let ev = snd (thrustmaster_probe env)
      in map Act ev @ (case in_flight ev of None \<Rightarrow> [] | Some cb \<Rightarrow> run_urb env cb))"

section \<open>Vocabulary of the specification\<close>

text \<open>
  The specification speaks of the first table entry for a model and of the contiguous
  run of entries with that model that starts there. \<open>first_index\<close> is the index of
  the first entry whose model is \<open>m\<close> (the length of the table when there is none).
\<close>

definition first_index :: "tm_wheel_info list \<Rightarrow> u8 \<Rightarrow> nat" where
  "first_index tbl m = length (takeWhile (\<lambda>e. model e \<noteq> m) tbl)"

definition model_run :: "tm_wheel_info list \<Rightarrow> u8 \<Rightarrow> tm_wheel_info list" where
  "model_run tbl m = takeWhile (\<lambda>e. model e = m) (drop (first_index tbl m) tbl)"

text \<open>Classifying actions: any URB submission, the switch command, the model query.\<close>

fun is_submit :: "event \<Rightarrow> bool" where
  "is_submit (Usb_submit_urb u r) = True"
| "is_submit e = False"

fun is_change_submit :: "event \<Rightarrow> bool" where
  "is_change_submit (Usb_submit_urb u r) = (bRequest (setup_packet u) = 83)"
| "is_change_submit e = False"

fun is_query_submit :: "event \<Rightarrow> bool" where
  "is_query_submit (Usb_submit_urb u r) = (bRequest (setup_packet u) = 73)"
| "is_query_submit e = False"

fun is_unknown_model :: "event \<Rightarrow> bool" where
  "is_unknown_model (Dev_err (Unknown_model_id m)) = True"
| "is_unknown_model e = False"

fun acts :: "step list \<Rightarrow> event list" where
  "acts [] = []"
| "acts (Act e # ss) = e # acts ss"
| "acts (Crash # ss) = acts ss"

text \<open>The \<open>wValue\<close> fields of the switch commands submitted, in order.\<close>

fun change_values :: "event list \<Rightarrow> le16 list" where
  "change_values [] = []"
| "change_values (Usb_submit_urb u r # es) =
     (if bRequest (setup_packet u) = 83 then wValue (setup_packet u) # change_values es
      else change_values es)"
| "change_values (e # es) = change_values es"

text \<open>The interrupt packets sent, in order.\<close>

fun packets :: "event list \<Rightarrow> u8 list list" where
  "packets [] = []"
| "packets (Usb_interrupt_msg ep bytes r # es) = bytes # packets es"
| "packets (e # es) = packets es"

text \<open>
  The number of consecutive setup packets, from index \<open>i\<close> on, whose
  \<open>usb_interrupt_msg\<close> returns 0.
\<close>

definition acked :: "usb_env \<Rightarrow> nat \<Rightarrow> nat" where
  "acked env i = length (takeWhile (\<lambda>j. interrupt_msg_ret env j = 0) [i..<length setup_arr])"

text \<open>A device on which every call succeeds, used to instantiate the theorems below.\<close>

definition example_env :: usb_env where
  "example_env = \<lparr>urb_alloc_ok = True, model_request_alloc_ok = True, response_alloc_ok = True,
     change_request_alloc_ok = True, idProduct = (0x5d, 0xb6), send_buf_alloc_ok = True,
     bNumEndpoints = 2, bEndpointAddress = 0x01, interrupt_msg_ret = (\<lambda>i. 0),
     submit_query_ret = 0, query_status = 0,
     query_data = [0x49, 0x00, 0x00, 0x00, 0x00, 0x00, 0x06, 0x02],
     submit_change_ret = 0, change_status = - 71\<rparr>"

text \<open>All four allocations of thrustmaster_probe succeed; a device with product id 0xb69c;
  a device that answers the query with the two bytes 01 00.\<close>

definition allocs_ok :: "usb_env \<Rightarrow> bool" where
  "allocs_ok env \<longleftrightarrow> urb_alloc_ok env \<and> model_request_alloc_ok env
                     \<and> response_alloc_ok env \<and> change_request_alloc_ok env"

definition t128_env :: usb_env where
  "t128_env = example_env\<lparr>idProduct := (0x9c, 0xb6)\<rparr>"

definition short_env :: usb_env where
  "short_env = example_env\<lparr>query_data := [0x01, 0x00]\<rparr>"

text \<open>The \<open>usb_interrupt_msg\<close> call for setup packet \<open>j\<close>; a device on which the third
  setup packet times out.\<close>

definition interrupt_msg :: "usb_env \<Rightarrow> nat \<Rightarrow> event" where
  "interrupt_msg env j =
     Usb_interrupt_msg (bEndpointAddress env) (setup_arr ! j) (interrupt_msg_ret env j)"

definition flaky_env :: usb_env where
  "flaky_env = example_env\<lparr>interrupt_msg_ret := (\<lambda>i. if i = 2 then - 110 else 0)\<rparr>"

section \<open>The scans, characterised\<close>

declare find_model.simps [simp del]
declare find_attachment.simps [simp del]
declare interrupts_loop.simps [simp del]
declare run_urb.simps [simp del]

lemma takeWhile_shorter: "x \<in> set xs \<Longrightarrow> \<not> P x \<Longrightarrow> length (takeWhile P xs) < length xs"
  by (induction xs) auto

lemma find_model_Some: "find_model tbl n m i (Some k) = (i, Some k)"
  by (subst find_model.simps) simp

lemma find_model_None:
  "i \<le> length tbl \<Longrightarrow>
   find_model tbl (length tbl) m i None =
     (let j = i + length (takeWhile (\<lambda>e. model e \<noteq> m) (drop i tbl))
      in if j < length tbl then (Suc j, Some j) else (length tbl, None))"
proof (induction "length tbl - i" arbitrary: i)
  case 0
  then have "i = length tbl" by simp
  then show ?case by (subst find_model.simps) simp
next
  case (Suc d)
  then have lt: "i < length tbl" by simp
  then have dr: "drop i tbl = tbl ! i # drop (Suc i) tbl"
    by (simp add: Cons_nth_drop_Suc)
  show ?case
  proof (cases "model (tbl ! i) = m")
    case True
    with lt dr show ?thesis
      by (subst find_model.simps) (simp add: find_model_Some)
  next
    case False
    from Suc have "d = length tbl - Suc i" and "Suc i \<le> length tbl" by simp_all
    from Suc.hyps(1) [OF this] False lt dr show ?thesis
      by (subst find_model.simps) (simp add: Let_def)
  qed
qed

lemma first_index_less: "first_index tbl m < length tbl \<longleftrightarrow> m \<in> model ` set tbl"
  unfolding first_index_def
  by (induction tbl) auto

lemma first_index_model: "first_index tbl m < length tbl \<Longrightarrow> model (tbl ! first_index tbl m) = m"
  unfolding first_index_def
  using nth_length_takeWhile [of "\<lambda>e. model e \<noteq> m" tbl] by simp

lemma find_attachment_found: "find_attachment tbl n m a i twi True = (twi, True)"
  by (subst find_attachment.simps) simp

lemma find_attachment_scan:
  "i \<le> length tbl \<Longrightarrow>
   find_attachment tbl (length tbl) m a i twi False =
     (let run = takeWhile (\<lambda>e. model e = m) (drop i tbl);
          j = length (takeWhile (\<lambda>e. attachment e \<noteq> a) run)
      in if j < length run then (i + j, True) else (twi, False))"
proof (induction "length tbl - i" arbitrary: i)
  case 0
  then have "i = length tbl" by simp
  then show ?case by (subst find_attachment.simps) simp
next
  case (Suc d)
  then have lt: "i < length tbl" by simp
  then have dr: "drop i tbl = tbl ! i # drop (Suc i) tbl"
    by (simp add: Cons_nth_drop_Suc)
  from Suc have "d = length tbl - Suc i" and "Suc i \<le> length tbl" by simp_all
  note IH = Suc.hyps(1) [OF this]
  show ?case
    using lt dr IH
    by (subst find_attachment.simps) (simp add: Let_def find_attachment_found)
qed

lemma resolve_in_None: "resolve_in tbl (length tbl) m a = None \<longleftrightarrow> m \<notin> model ` set tbl"
  using first_index_less [of tbl m]
  by (simp add: resolve_in_def find_model_None Let_def first_index_def)

lemma model_run_Cons:
  assumes "first_index tbl m < length tbl"
  shows "model_run tbl m = tbl ! first_index tbl m
           # takeWhile (\<lambda>e. model e = m) (drop (Suc (first_index tbl m)) tbl)"
  using assms first_index_model [OF assms]
  by (simp add: model_run_def Cons_nth_drop_Suc [symmetric])

lemma resolve_in_fallback:
  assumes "m \<in> model ` set tbl" and "a \<notin> attachment ` set (model_run tbl m)"
  shows "resolve_in tbl (length tbl) m a = Some (first_index tbl m, False)"
proof -
  from assms(1) have lt: "first_index tbl m < length tbl"
    by (simp add: first_index_less)
  let ?rest = "takeWhile (\<lambda>e. model e = m) (drop (Suc (first_index tbl m)) tbl)"
  from assms(2) model_run_Cons [OF lt]
  have hd: "attachment (tbl ! first_index tbl m) \<noteq> a" and tl: "\<forall>e\<in>set ?rest. attachment e \<noteq> a"
    by auto
  from tl have all: "takeWhile (\<lambda>e. attachment e \<noteq> a) ?rest = ?rest"
    by (simp add: takeWhile_eq_all_conv)
  from lt hd show ?thesis
    using find_model_None [of 0 tbl m]
    by (simp add: resolve_in_def Let_def first_index_def [symmetric] find_attachment_scan all)
qed

lemma resolve_in_match:
  assumes "a \<in> attachment ` set (model_run tbl m)"
  shows "resolve_in tbl (length tbl) m a =
           Some (first_index tbl m
                   + length (takeWhile (\<lambda>e. attachment e \<noteq> a) (model_run tbl m)), True)"
proof -
  have lt: "first_index tbl m < length tbl"
  proof (rule ccontr)
    assume "\<not> ?thesis"
    then have "model_run tbl m = []" by (simp add: model_run_def)
    with assms show False by simp
  qed
  let ?rest = "takeWhile (\<lambda>e. model e = m) (drop (Suc (first_index tbl m)) tbl)"
  note mr = model_run_Cons [OF lt]
  show ?thesis
  proof (cases "attachment (tbl ! first_index tbl m) = a")
    case True
    with lt mr show ?thesis
      using find_model_None [of 0 tbl m]
      by (simp add: resolve_in_def Let_def first_index_def [symmetric] find_attachment_found)
  next
    case False
    with assms mr have "a \<in> attachment ` set ?rest" by auto
    then have "length (takeWhile (\<lambda>e. attachment e \<noteq> a) ?rest) < length ?rest"
      by (auto intro: takeWhile_shorter)
    with False lt mr show ?thesis
      using find_model_None [of 0 tbl m]
      by (simp add: resolve_in_def Let_def first_index_def [symmetric] find_attachment_scan)
  qed
qed

lemma length_tm_wheels_infos: "length tm_wheels_infos = tm_wheels_infos_length"
  by (simp add: tm_wheels_infos_def tm_wheels_infos_length_def)

text \<open>Invariants of the two scans, by computation induction.\<close>

lemma find_model_sound:
  "find_model tbl n m i twi = (i', Some k) \<Longrightarrow> n \<le> length tbl \<Longrightarrow>
   (\<forall>k'. twi = Some k' \<longrightarrow> k' < n \<and> model (tbl ! k') = m) \<Longrightarrow>
   k < n \<and> model (tbl ! k) = m"
proof (induction tbl n m i twi rule: find_model.induct)
  case (1 tbl n m i twi)
  show ?case
  proof (cases "i < n \<and> twi = None")
    case True
    with "1.prems"(1) have step:
      "find_model tbl n m (Suc i) (if model (tbl ! i) = m then Some i else twi) = (i', Some k)"
      by (subst (asm) find_model.simps) simp
    from True have inv:
      "\<forall>k'. (if model (tbl ! i) = m then Some i else twi) = Some k'
             \<longrightarrow> k' < n \<and> model (tbl ! k') = m"
      by simp
    show ?thesis
      by (rule "1.IH" [OF True step "1.prems"(2) inv])
  next
    case False
    with "1.prems"(1) have "twi = Some k"
      by (subst (asm) find_model.simps) simp
    with "1.prems"(3) show ?thesis
      by simp
  qed
qed

lemma find_attachment_sound:
  "find_attachment tbl n m a i twi found = (k, f) \<Longrightarrow> n \<le> length tbl \<Longrightarrow>
   twi < n \<and> model (tbl ! twi) = m \<Longrightarrow> k < n \<and> model (tbl ! k) = m"
proof (induction tbl n m a i twi found rule: find_attachment.induct)
  case (1 tbl n m a i twi found)
  show ?case
  proof (cases "\<not> found \<and> i < n \<and> model (tbl ! i) = m")
    case False
    with "1.prems"(1) have "k = twi"
      by (subst (asm) find_attachment.simps) auto
    with "1.prems"(3) show ?thesis by simp
  next
    case True
    show ?thesis
    proof (cases "attachment (tbl ! i) = a")
      case hit: True
      with True "1.prems"(1) have step: "find_attachment tbl n m a (Suc i) i True = (k, f)"
        by (subst (asm) find_attachment.simps) simp
      from True have inv: "i < n \<and> model (tbl ! i) = m" by simp
      show ?thesis
        by (rule "1.IH"(1) [OF True hit step "1.prems"(2) inv])
    next
      case miss: False
      with True "1.prems"(1) have step: "find_attachment tbl n m a (Suc i) twi found = (k, f)"
        by (subst (asm) find_attachment.simps) simp
      show ?thesis
        by (rule "1.IH"(2) [OF True miss step "1.prems"(2,3)])
    qed
  qed
qed

lemma resolve_in_sound:
  assumes "resolve_in tbl n m a = Some (k, f)" and "n \<le> length tbl"
  shows "k < n \<and> model (tbl ! k) = m"
proof -
  obtain i twi where fm: "find_model tbl n m 0 None = (i, Some twi)"
    and fa: "find_attachment tbl n m a i twi (attachment (tbl ! twi) = a) = (k, f)"
    using assms(1)
    by (auto simp: resolve_in_def split: prod.splits option.splits)
  have "\<forall>k'. (None :: nat option) = Some k' \<longrightarrow> k' < n \<and> model (tbl ! k') = m" by simp
  from find_model_sound [OF fm assms(2) this] have "twi < n \<and> model (tbl ! twi) = m" .
  from find_attachment_sound [OF fa assms(2) this] show ?thesis .
qed

section \<open>The resolved entry has the decoded model\<close>

text \<open>
  Claim C10. Whenever the resolution succeeds, with or without a matching attachment,
  the selected table entry lies inside the table and its model field is the model code
  that was decoded from the response: neither scan can select an entry of another model.
\<close>

theorem resolved_model_matches:
  "resolve m a = Some (twi, found) \<Longrightarrow>
   twi < length tm_wheels_infos \<and> model (tm_wheels_infos ! twi) = m"
  using resolve_in_sound [of tm_wheels_infos tm_wheels_infos_length m a twi found]
  by (simp add: resolve_def length_tm_wheels_infos)

theorem resolved_model_matches_witness:
  "resolve 2 1 = Some (1, False) \<and> (1::nat) < length tm_wheels_infos
     \<and> model (tm_wheels_infos ! 1) = 2"
proof -
  have r: "resolve 2 1 = Some (1, False)" by code_simp
  from resolved_model_matches [OF r] r show ?thesis by simp
qed

section \<open>Fallback and unknown models\<close>

lemma resolve_None: "resolve m a = None \<longleftrightarrow> m \<notin> model ` set tm_wheels_infos"
  using resolve_in_None [of tm_wheels_infos m a]
  by (simp add: resolve_def length_tm_wheels_infos)

lemma resolve_fallback:
  "m \<in> model ` set tm_wheels_infos \<Longrightarrow> a \<notin> attachment ` set (model_run tm_wheels_infos m) \<Longrightarrow>
   resolve m a = Some (first_index tm_wheels_infos m, False)"
  using resolve_in_fallback [of m tm_wheels_infos a]
  by (simp add: resolve_def length_tm_wheels_infos)

lemma submit_change_events:
  "\<not> list_ex is_unknown_model (snd (thrustmaster_submit_change env sv))"
  by (simp add: thrustmaster_submit_change_def Let_def)

lemma model_handler_unknown_model:
  assumes "thrustmaster_model_handler env status response = Some evs"
  shows "list_ex is_unknown_model evs \<longleftrightarrow>
           status = 0 \<and> (\<exists>m a. response_decode response = Some (Fields m a) \<and> resolve m a = None)"
proof (cases "status = 0")
  case False
  with assms show ?thesis
    by (auto simp: thrustmaster_model_handler_def)
next
  case True
  show ?thesis
  proof (cases "response_decode response")
    case None
    with assms True show ?thesis by (simp add: thrustmaster_model_handler_def)
  next
    case (Some d)
    show ?thesis
    proof (cases d)
      case (Unknown_type t)
      with assms True Some show ?thesis
        by (auto simp: thrustmaster_model_handler_def)
    next
      case (Fields m a)
      show ?thesis
      proof (cases "resolve m a")
        case None
        with assms True Some Fields show ?thesis
          by (auto simp: thrustmaster_model_handler_def)
      next
        case (Some r)
        with assms True \<open>response_decode response = Some d\<close> Fields show ?thesis
          by (cases r) (auto simp: thrustmaster_model_handler_def submit_change_events)
      qed
    qed
  qed
qed

lemma model_handler_unknown_model_silent:
  assumes "thrustmaster_model_handler env status response = Some evs"
    and "list_ex is_unknown_model evs"
  shows "\<not> list_ex is_submit evs"
proof -
  from model_handler_unknown_model [OF assms(1)] assms(2)
  obtain m a where "status = 0" and "response_decode response = Some (Fields m a)"
    and "resolve m a = None" by auto
  with assms(1) show ?thesis
    by (auto simp: thrustmaster_model_handler_def)
qed

text \<open>
  Claim C3. For a model that occurs in the table and an attachment that does not occur
  in the contiguous run of entries starting at the first entry of that model, the
  resolution selects that first entry, with \<open>attachment_found\<close> false. The resolution
  finds nothing exactly when no entry of the table has the model. The handler logs the
  unknown-model error exactly when the URB succeeded, the response type was recognised
  and no entry has the decoded model, and then it submits no URB.
\<close>

theorem fallback_and_unknown_model:
  "(m \<in> model ` set tm_wheels_infos \<and> a \<notin> attachment ` set (model_run tm_wheels_infos m)
      \<longrightarrow> resolve m a = Some (first_index tm_wheels_infos m, False)) \<and>
   (resolve m a = None \<longleftrightarrow> m \<notin> model ` set tm_wheels_infos) \<and>
   (thrustmaster_model_handler env status response = Some evs \<longrightarrow>
      (list_ex is_unknown_model evs \<longleftrightarrow>
         status = 0 \<and> (\<exists>m' a'. response_decode response = Some (Fields m' a')
                               \<and> m' \<notin> model ` set tm_wheels_infos)) \<and>
      (list_ex is_unknown_model evs \<longrightarrow> \<not> list_ex is_submit evs))"
proof (intro conjI impI)
  assume "m \<in> model ` set tm_wheels_infos \<and> a \<notin> attachment ` set (model_run tm_wheels_infos m)"
  then show "resolve m a = Some (first_index tm_wheels_infos m, False)"
    by (simp add: resolve_fallback)
next
  show "resolve m a = None \<longleftrightarrow> m \<notin> model ` set tm_wheels_infos"
    by (rule resolve_None)
next
  assume h: "thrustmaster_model_handler env status response = Some evs"
  show "list_ex is_unknown_model evs \<longleftrightarrow>
         status = 0 \<and> (\<exists>m' a'. response_decode response = Some (Fields m' a')
                               \<and> m' \<notin> model ` set tm_wheels_infos)"
    using model_handler_unknown_model [OF h] by (simp add: resolve_None)
next
  assume "thrustmaster_model_handler env status response = Some evs"
    and "list_ex is_unknown_model evs"
  then show "\<not> list_ex is_submit evs"
    by (rule model_handler_unknown_model_silent)
qed

theorem fallback_and_unknown_model_witness:
  "(0 \<in> model ` set tm_wheels_infos \<and> 9 \<notin> attachment ` set (model_run tm_wheels_infos 0)) \<and>
   resolve 0 9 = Some (0, False) \<and>
   4 \<notin> model ` set tm_wheels_infos \<and> resolve 4 7 = None \<and>
   thrustmaster_model_handler example_env 0
       [0x49, 0, 0, 0, 0, 0, 0x07, 0x04, 0, 0, 0, 0, 0, 0, 0, 0]
     = Some [Dev_err (Unknown_model_id 4)] \<and>
   \<not> list_ex is_submit [Dev_err (Unknown_model_id 4)]"
proof -
  let ?resp = "[0x49, 0, 0, 0, 0, 0, 0x07, 0x04, 0, 0, 0, 0, 0, 0, 0, 0] :: u8 list"
  let ?evs = "[Dev_err (Unknown_model_id 4)]"
  have run: "model_run tm_wheels_infos 0 = [tm_wheels_infos ! 0]"
    by (simp add: model_run_def first_index_def tm_wheels_infos_def mk_info_def)
  have h1: "0 \<in> model ` set tm_wheels_infos \<and> 9 \<notin> attachment ` set (model_run tm_wheels_infos 0)"
    unfolding run by (simp add: tm_wheels_infos_def mk_info_def)
  have h2: "4 \<notin> model ` set tm_wheels_infos"
    by (simp add: tm_wheels_infos_def mk_info_def)
  have h3: "thrustmaster_model_handler example_env 0 ?resp = Some ?evs"
    by code_simp
  have fi: "first_index tm_wheels_infos 0 = 0"
    by (simp add: first_index_def tm_wheels_infos_def mk_info_def)
  note a = fallback_and_unknown_model [of 0 9 example_env 0 ?resp ?evs]
  note b = fallback_and_unknown_model [of 4 7 example_env 0 ?resp ?evs]
  from a [THEN conjunct1, THEN mp, OF h1] fi have c1: "resolve 0 9 = Some (0, False)"
    by simp
  from b [THEN conjunct2, THEN conjunct1] h2 have c2: "resolve 4 7 = None"
    by simp
  have u: "list_ex is_unknown_model ?evs" by simp
  from b [THEN conjunct2, THEN conjunct2, THEN mp, OF h3, THEN conjunct2, THEN mp, OF u]
  have c3: "\<not> list_ex is_submit ?evs" .
  from h1 c1 h2 c2 h3 c3 show ?thesis by blast
qed

section \<open>The table against the scans\<close>

text \<open>
  Claim C1. Running the resolution on the (model, attachment) pair of each table entry,
  in table order: the first seven entries are selected by their own pair, but the pair
  (0x00, 0x09) of the last entry, the T128, selects entry 0, the T500RS, with
  \<open>attachment_found\<close> false, so that switch value 0x0002 is sent where the table says
  0x000b. The first scan stops at entry 0, and the second scan stops at entry 1, whose
  model differs. The last conjunct runs the handler on such a response.
\<close>

theorem every_entry_resolved:
  "map (\<lambda>e. resolve (model e) (attachment e)) tm_wheels_infos =
     [Some (0, True), Some (1, True), Some (2, True), Some (3, True), Some (4, True),
      Some (5, True), Some (6, True), Some (0, False)] \<and>
   switch_value (tm_wheels_infos ! 0) = 0x0002 \<and>
   switch_value (tm_wheels_infos ! 7) = 0x000b \<and>
   thrustmaster_model_handler example_env 0
       [0x49, 0, 0, 0, 0, 0, 0x09, 0x00, 0, 0, 0, 0, 0, 0, 0, 0]
     = Some [Dev_info (Wheel_is 0x00 0x09 ''Thrustmaster T500RS'' False),
             Usb_submit_urb
               \<lparr>urb_pipe = Sndctrlpipe,
                  setup_packet = change_request\<lparr>wValue := (0x02, 0x00)\<rparr>,
                  transfer_buffer_length = 0, complete = Change_handler\<rparr> 0]"
proof -
  have handler: "thrustmaster_model_handler example_env 0
       [0x49, 0, 0, 0, 0, 0, 0x09, 0x00, 0, 0, 0, 0, 0, 0, 0, 0]
     = Some [Dev_info (Wheel_is 0x00 0x09 ''Thrustmaster T500RS'' False),
             Usb_submit_urb
               \<lparr>urb_pipe = Sndctrlpipe,
                  setup_packet = change_request\<lparr>wValue := (0x02, 0x00)\<rparr>,
                  transfer_buffer_length = 0, complete = Change_handler\<rparr> 0]"
    by code_simp
  have "resolve 0x00 0x02 = Some (0, True)" by code_simp
  moreover have "resolve 0x02 0x00 = Some (1, True)" by code_simp
  moreover have "resolve 0x02 0x03 = Some (2, True)" by code_simp
  moreover have "resolve 0x02 0x04 = Some (3, True)" by code_simp
  moreover have "resolve 0x02 0x06 = Some (4, True)" by code_simp
  moreover have "resolve 0x02 0x09 = Some (5, True)" by code_simp
  moreover have "resolve 0x03 0x06 = Some (6, True)" by code_simp
  moreover have "resolve 0x00 0x09 = Some (0, False)" by code_simp
  ultimately have "map (\<lambda>e. resolve (model e) (attachment e)) tm_wheels_infos =
     [Some (0, True), Some (1, True), Some (2, True), Some (3, True), Some (4, True),
      Some (5, True), Some (6, True), Some (0, False)]"
    by (simp add: tm_wheels_infos_def mk_info_def)
  moreover have "switch_value (tm_wheels_infos ! 0) = 0x0002"
    and "switch_value (tm_wheels_infos ! 7) = 0x000b"
    by (simp_all add: tm_wheels_infos_def mk_info_def)
  ultimately show ?thesis
    using handler by blast
qed

text \<open>
  Claim C2. The model codes of the table in table order: model 0x00 occurs at
  index 0 and again at index 7, with the entries of models 0x02 and 0x03 in between,
  so the entries of model 0x00 do not form one contiguous run.
\<close>

theorem models_in_table_order:
  "map model tm_wheels_infos = [0x00, 0x02, 0x02, 0x02, 0x02, 0x02, 0x03, 0x00] \<and>
   model (tm_wheels_infos ! 0) = model (tm_wheels_infos ! 7) \<and>
   model (tm_wheels_infos ! 1) \<noteq> model (tm_wheels_infos ! 0)"
  by (simp add: tm_wheels_infos_def mk_info_def)

section \<open>Completion of the switch command\<close>

text \<open>
  Claim C4. For status 0, \<open>-EPROTO\<close> or \<open>-EPIPE\<close> the change handler logs the
  success message and nothing else; for every other status it logs the warning with that
  status. In both cases it submits no URB and leaves none in flight, so the chain of
  completions ends with it: nothing is retried.
\<close>

theorem change_handler_outcome:
  "(status = 0 \<or> status = - EPROTO \<or> status = - EPIPE
      \<longrightarrow> thrustmaster_change_handler status = [Dev_info Wheel_initialized]) \<and>
   (status \<noteq> 0 \<and> status \<noteq> - EPROTO \<and> status \<noteq> - EPIPE
      \<longrightarrow> thrustmaster_change_handler status = [Dev_warn (Change_urb_failed status)]) \<and>
   \<not> list_ex is_submit (thrustmaster_change_handler status) \<and>
   in_flight (thrustmaster_change_handler status) = None \<and>
   run_urb env Change_handler = map Act (thrustmaster_change_handler (change_status env))"
  by (subst run_urb.simps) (simp add: thrustmaster_change_handler_def completion_def)

theorem change_handler_outcome_witness:
  "thrustmaster_change_handler (- 71) = [Dev_info Wheel_initialized] \<and>
   thrustmaster_change_handler (- 32) = [Dev_info Wheel_initialized] \<and>
   thrustmaster_change_handler (- 110) = [Dev_warn (Change_urb_failed (- 110))] \<and>
   run_urb example_env Change_handler = [Act (Dev_info Wheel_initialized)]"
proof -
  have "(- 71 :: int) = 0 \<or> - 71 = - EPROTO \<or> - 71 = - EPIPE" by (simp add: EPROTO_def)
  from change_handler_outcome [of "- 71" example_env, THEN conjunct1, THEN mp, OF this]
  have a: "thrustmaster_change_handler (- 71) = [Dev_info Wheel_initialized]" .
  have "(- 32 :: int) = 0 \<or> - 32 = - EPROTO \<or> - 32 = - EPIPE" by (simp add: EPIPE_def)
  from change_handler_outcome [of "- 32" example_env, THEN conjunct1, THEN mp, OF this]
  have b: "thrustmaster_change_handler (- 32) = [Dev_info Wheel_initialized]" .
  have "(- 110 :: int) \<noteq> 0 \<and> - 110 \<noteq> - EPROTO \<and> - 110 \<noteq> - EPIPE"
    by (simp add: EPIPE_def EPROTO_def)
  from change_handler_outcome [of "- 110" example_env, THEN conjunct2, THEN conjunct1, THEN mp, OF this]
  have c: "thrustmaster_change_handler (- 110) = [Dev_warn (Change_urb_failed (- 110))]" .
  have "change_status example_env = - 71" by (simp add: example_env_def)
  with change_handler_outcome [of "- 71" example_env] a
  have d: "run_urb example_env Change_handler = [Act (Dev_info Wheel_initialized)]"
    by simp
  from a b c d show ?thesis by simp
qed

section \<open>The layout of the response\<close>

lemma le16_roundtrip: "le16_to_cpu (cpu_to_le16 x) = x"
  by (rule bit_word_eqI) (auto simp: le16_to_cpu_def cpu_to_le16_def bit_simps)

lemma le16_roundtrip': "cpu_to_le16 (le16_to_cpu t) = t"
proof (cases t)
  case (Pair lo hi)
  have "ucast (ucast lo OR push_bit 8 (ucast hi) :: u16) = lo"
    by (rule bit_word_eqI) (auto simp: bit_simps)
  moreover have "ucast (drop_bit 8 (ucast lo OR push_bit 8 (ucast hi) :: u16)) = hi"
    by (rule bit_word_eqI) (auto simp: bit_simps dest: bit_imp_le_length)
  ultimately show ?thesis using Pair
    by (simp add: le16_to_cpu_def cpu_to_le16_def)
qed

lemma tag_eq: "t = cpu_to_le16 x \<longleftrightarrow> le16_to_cpu t = x"
  using le16_roundtrip le16_roundtrip' by metis

lemma sizeof_response: "sizeof_tm_wheel_response = 16"
  by (simp add: sizeof_tm_wheel_response_def data_offset_def size_of_def layout_a_def layout_b_def)

lemma field_offsets:
  "data_offset + offset_of layout_a ''attachment'' = 6"
  "data_offset + offset_of layout_b ''attachment'' = 6"
  "data_offset + offset_of layout_a ''model'' = 7"
  "data_offset + offset_of layout_b ''model'' = 7"
  by (simp_all add: data_offset_def layout_a_def layout_b_def)

lemma response_type_update:
  assumes "2 \<le> length buf"
  shows "response_type (buf[0 := b0, 1 := b1]) = Some (b0, b1)"
proof -
  from assms obtain x y r where "buf = x # y # r"
    by (cases buf; cases "tl buf") auto
  then show ?thesis
    by (simp add: response_type_def peek_def type_offset_def)
qed

lemma response_decode_short: "length buf < 2 \<Longrightarrow> response_decode buf = None"
  by (auto simp: response_decode_def response_type_def peek_def type_offset_def
        split: option.splits)

lemma peek_update: "i \<noteq> off \<Longrightarrow> peek (buf[i := b]) off = peek buf off"
  by (simp add: peek_def)

text \<open>
  Claim C9. In both layouts the attachment is byte 6 and the model is byte 7 of the
  response, so the field reads of layout \<open>a\<close> and of layout \<open>b\<close> agree on every
  buffer, and a buffer decodes to the same result under type 0x0049 as under type 0x0047.
\<close>

theorem layouts_agree:
  "data_offset + offset_of layout_a ''attachment'' = 6 \<and>
   data_offset + offset_of layout_b ''attachment'' = 6 \<and>
   data_offset + offset_of layout_a ''model'' = 7 \<and>
   data_offset + offset_of layout_b ''model'' = 7 \<and>
   data_a_attachment buf = data_b_attachment buf \<and>
   data_a_model buf = data_b_model buf \<and>
   response_decode (buf[0 := 0x49, 1 := 0x00]) = response_decode (buf[0 := 0x47, 1 := 0x00])"
proof -
  have att: "data_a_attachment b = data_b_attachment b" for b
    by (simp add: data_a_attachment_def data_b_attachment_def field_offsets)
  have mdl: "data_a_model b = data_b_model b" for b
    by (simp add: data_a_model_def data_b_model_def field_offsets)
  have dec: "response_decode (buf[0 := 0x49, 1 := 0x00]) = response_decode (buf[0 := 0x47, 1 := 0x00])"
  proof (cases "2 \<le> length buf")
    case False
    then show ?thesis by (simp add: response_decode_short)
  next
    case True
    have ne: "cpu_to_le16 0x47 \<noteq> cpu_to_le16 0x49"
      by (simp add: cpu_to_le16_def)
    have a: "cpu_to_le16 0x49 = (0x49, 0)" and b: "cpu_to_le16 0x47 = (0x47, 0)"
      by (simp_all add: cpu_to_le16_def)
    have pa: "data_b_model (buf[0 := 0x49, 1 := 0x00]) = data_b_model (buf[0 := 0x47, 1 := 0x00])"
      by (simp add: data_b_model_def field_offsets peek_update)
    have pb: "data_b_attachment (buf[0 := 0x49, 1 := 0x00])
                = data_b_attachment (buf[0 := 0x47, 1 := 0x00])"
      by (simp add: data_b_attachment_def field_offsets peek_update)
    show ?thesis
      unfolding response_decode_def response_type_update [OF True] att mdl pa pb a b
      by simp
  qed
  from att mdl dec show ?thesis by (simp add: field_offsets)
qed

lemma length_usb_receive: "length (usb_receive buf data) = length buf"
  by (simp add: usb_receive_def)

lemma length_response_buffer: "length (response_buffer env) = 16"
  by (simp add: response_buffer_def length_usb_receive kzalloc_def sizeof_response)

lemma response_decode_full:
  assumes "length buf = 16"
  shows "response_decode buf =
           (if le16_to_cpu (buf ! 0, buf ! 1) = 0x0049 \<or> le16_to_cpu (buf ! 0, buf ! 1) = 0x0047
            then Some (Fields (buf ! 7) (buf ! 6))
            else Some (Unknown_type (buf ! 0, buf ! 1)))"
  using assms
  by (simp add: response_decode_def response_type_def type_offset_def peek_def tag_eq
        data_a_model_def data_a_attachment_def data_b_model_def data_b_attachment_def
        field_offsets)

section \<open>Sessions\<close>

lemma acts_map_Act: "acts (map Act evs) = evs"
  by (induction evs) simp_all

lemma acts_append: "acts (xs @ ys) = acts xs @ acts ys"
  by (induction xs rule: acts.induct) simp_all

lemma Crash_map_Act: "Crash \<notin> set (map Act evs)"
  by auto

lemma in_flight_append:
  "in_flight (xs @ ys) = (case in_flight ys of Some cb \<Rightarrow> Some cb | None \<Rightarrow> in_flight xs)"
  by (induction xs rule: in_flight.induct) (simp_all split: option.splits)

lemma in_flight_no_submit: "\<not> list_ex is_submit evs \<Longrightarrow> in_flight evs = None"
  by (induction evs rule: in_flight.induct) simp_all

lemma change_values_append: "change_values (xs @ ys) = change_values xs @ change_values ys"
  by (induction xs rule: change_values.induct) simp_all

lemma change_values_no_submit: "\<not> list_ex is_submit evs \<Longrightarrow> change_values evs = []"
  by (induction evs rule: change_values.induct) simp_all

lemma query_submit_is_submit: "is_query_submit e \<Longrightarrow> is_submit e"
  by (cases e) simp_all

lemma no_query_no_submit: "\<not> list_ex is_submit evs \<Longrightarrow> \<not> list_ex is_query_submit evs"
  by (auto simp: list_ex_iff dest: query_submit_is_submit)

lemma packets_append: "packets (xs @ ys) = packets xs @ packets ys"
  by (induction xs rule: packets.induct) simp_all

lemma change_handler_quiet:
  "\<not> list_ex is_submit (thrustmaster_change_handler status)"
  "packets (thrustmaster_change_handler status) = []"
  by (simp_all add: thrustmaster_change_handler_def)

lemma run_urb_Change_handler:
  "run_urb env Change_handler = map Act (thrustmaster_change_handler (change_status env))"
  by (subst run_urb.simps) (simp add: completion_def in_flight_no_submit change_handler_quiet)

lemma submit_change_expand:
  "thrustmaster_submit_change env sv =
     (submit_change_ret env,
      Usb_submit_urb \<lparr>urb_pipe = Sndctrlpipe,
                      setup_packet = change_request\<lparr>wValue := cpu_to_le16 sv\<rparr>,
                      transfer_buffer_length = 0, complete = Change_handler\<rparr>
         (submit_change_ret env)
       # (if submit_change_ret env \<noteq> 0
          then [Dev_err (Submit_change_error (submit_change_ret env))] else []))"
  by (simp add: thrustmaster_submit_change_def Let_def)

lemma submit_change_facts:
  "in_flight (snd (thrustmaster_submit_change env sv))
     = (if submit_change_ret env = 0 then Some Change_handler else None)"
  "change_values (snd (thrustmaster_submit_change env sv)) = [cpu_to_le16 sv]"
  "packets (snd (thrustmaster_submit_change env sv)) = []"
  "\<not> list_ex is_query_submit (snd (thrustmaster_submit_change env sv))"
  by (simp_all add: submit_change_expand change_request_def)

lemma probe_alloc_failure: "\<not> allocs_ok env \<Longrightarrow> thrustmaster_probe env = (- ENOMEM, [])"
  by (auto simp: allocs_ok_def thrustmaster_probe_def)

lemma probe_identity_A:
  "allocs_ok env \<Longrightarrow> le16_to_cpu (idProduct env) = 0xb69c \<Longrightarrow>
   thrustmaster_probe env = thrustmaster_submit_change env 0x000b"
  by (simp add: allocs_ok_def thrustmaster_probe_def)

lemma session_alloc_failure: "\<not> allocs_ok env \<Longrightarrow> session env = []"
  by (simp add: session_def probe_alloc_failure)

lemma session_identity_A:
  assumes "allocs_ok env" and "le16_to_cpu (idProduct env) = 0xb69c"
  shows "session env =
           map Act (snd (thrustmaster_submit_change env 0x000b))
           @ (if submit_change_ret env = 0
              then map Act (thrustmaster_change_handler (change_status env)) else [])"
  by (simp add: session_def probe_identity_A [OF assms] submit_change_facts
        run_urb_Change_handler)

lemma b_le16: "cpu_to_le16 0x000b = (0x0b, 0x00)"
  by (simp add: cpu_to_le16_def)

text \<open>
  Claim C5. For a device with product id 0xb69c no session contains a submission of
  the model query or an interrupt packet, and none crashes. When the allocations of the
  probe succeed, the probe is exactly the submission of the switch command with value
  0x000b, and the whole session is that submission followed, if it was accepted, by the
  change handler's log line: the model handler, with its decode and resolution, never runs.
\<close>

theorem identity_A_session:
  "le16_to_cpu (idProduct env) = 0xb69c \<longrightarrow>
     \<not> list_ex is_query_submit (acts (session env)) \<and>
     packets (acts (session env)) = [] \<and>
     Crash \<notin> set (session env) \<and>
     (urb_alloc_ok env \<and> model_request_alloc_ok env \<and> response_alloc_ok env
        \<and> change_request_alloc_ok env \<longrightarrow>
      thrustmaster_probe env = thrustmaster_submit_change env 0x000b \<and>
      session env =
        map Act (Usb_submit_urb
                   \<lparr>urb_pipe = Sndctrlpipe,
                      setup_packet = change_request\<lparr>wValue := (0x0b, 0x00)\<rparr>,
                      transfer_buffer_length = 0, complete = Change_handler\<rparr>
                   (submit_change_ret env)
                 # (if submit_change_ret env \<noteq> 0
                    then [Dev_err (Submit_change_error (submit_change_ret env))]
                    else thrustmaster_change_handler (change_status env))))"
proof (intro impI)
  assume idA: "le16_to_cpu (idProduct env) = 0xb69c"
  show "\<not> list_ex is_query_submit (acts (session env)) \<and>
     packets (acts (session env)) = [] \<and>
     Crash \<notin> set (session env) \<and>
     (urb_alloc_ok env \<and> model_request_alloc_ok env \<and> response_alloc_ok env
        \<and> change_request_alloc_ok env \<longrightarrow>
      thrustmaster_probe env = thrustmaster_submit_change env 0x000b \<and>
      session env =
        map Act (Usb_submit_urb
                   \<lparr>urb_pipe = Sndctrlpipe,
                      setup_packet = change_request\<lparr>wValue := (0x0b, 0x00)\<rparr>,
                      transfer_buffer_length = 0, complete = Change_handler\<rparr>
                   (submit_change_ret env)
                 # (if submit_change_ret env \<noteq> 0
                    then [Dev_err (Submit_change_error (submit_change_ret env))]
                    else thrustmaster_change_handler (change_status env))))"
  proof (cases "allocs_ok env")
    case False
    then show ?thesis
      by (simp add: session_alloc_failure) (simp add: allocs_ok_def)
  next
    case True
    note s = session_identity_A [OF True idA]
    have q: "\<not> list_ex is_query_submit (acts (session env))"
      unfolding s
      by (simp add: acts_append acts_map_Act submit_change_facts no_query_no_submit
            change_handler_quiet)
    have p: "packets (acts (session env)) = []"
      unfolding s
      by (simp add: acts_append acts_map_Act packets_append submit_change_facts
            change_handler_quiet)
    have c: "Crash \<notin> set (session env)"
      unfolding s by auto
    have e: "session env =
        map Act (Usb_submit_urb
                   \<lparr>urb_pipe = Sndctrlpipe,
                      setup_packet = change_request\<lparr>wValue := (0x0b, 0x00)\<rparr>,
                      transfer_buffer_length = 0, complete = Change_handler\<rparr>
                   (submit_change_ret env)
                 # (if submit_change_ret env \<noteq> 0
                    then [Dev_err (Submit_change_error (submit_change_ret env))]
                    else thrustmaster_change_handler (change_status env)))"
      unfolding s by (simp add: submit_change_expand b_le16)
    from q p c e probe_identity_A [OF True idA] show ?thesis by simp
  qed
qed


theorem identity_A_session_witness:
  "le16_to_cpu (idProduct t128_env) = 0xb69c \<and>
   (urb_alloc_ok t128_env \<and> model_request_alloc_ok t128_env \<and> response_alloc_ok t128_env
      \<and> change_request_alloc_ok t128_env) \<and>
   \<not> list_ex is_query_submit (acts (session t128_env)) \<and>
   session t128_env =
     [Act (Usb_submit_urb
             \<lparr>urb_pipe = Sndctrlpipe,
                setup_packet = change_request\<lparr>wValue := (0x0b, 0x00)\<rparr>,
                transfer_buffer_length = 0, complete = Change_handler\<rparr> 0),
      Act (Dev_info Wheel_initialized)]"
proof -
  have idA: "le16_to_cpu (idProduct t128_env) = 0xb69c"
    by (simp add: t128_env_def example_env_def le16_to_cpu_def)
  have al: "urb_alloc_ok t128_env \<and> model_request_alloc_ok t128_env
              \<and> response_alloc_ok t128_env \<and> change_request_alloc_ok t128_env"
    by (simp add: t128_env_def example_env_def)
  have vals: "submit_change_ret t128_env = 0" "change_status t128_env = - 71"
    by (simp_all add: t128_env_def example_env_def)
  note t = identity_A_session [of t128_env, THEN mp, OF idA]
  from t have q: "\<not> list_ex is_query_submit (acts (session t128_env))"
    by (rule conjunct1)
  from t [THEN conjunct2, THEN conjunct2, THEN conjunct2, THEN mp, OF al, THEN conjunct2]
  have "session t128_env =
     [Act (Usb_submit_urb
             \<lparr>urb_pipe = Sndctrlpipe,
                setup_packet = change_request\<lparr>wValue := (0x0b, 0x00)\<rparr>,
                transfer_buffer_length = 0, complete = Change_handler\<rparr> 0),
      Act (Dev_info Wheel_initialized)]"
    by (simp add: vals thrustmaster_change_handler_def EPROTO_def)
  with idA al q show ?thesis by blast
qed

section \<open>Decoding the response\<close>

lemma tag_values:
  "le16_to_cpu t = 0x0049 \<longleftrightarrow> t = (0x49, 0x00)"
  "le16_to_cpu t = 0x0047 \<longleftrightarrow> t = (0x47, 0x00)"
  using tag_eq [of t "0x0049"] tag_eq [of t "0x0047"]
  by (simp_all add: cpu_to_le16_def)

lemma model_handler_total:
  "length response = 16 \<Longrightarrow> thrustmaster_model_handler env status response \<noteq> None"
  by (simp add: thrustmaster_model_handler_def response_decode_full
        split: option.splits prod.splits)

lemma run_urb_Model_handler:
  "run_urb env Model_handler =
     (case thrustmaster_model_handler env (query_status env) (response_buffer env) of
        None \<Rightarrow> [Crash]
      | Some ev \<Rightarrow>
          map Act ev @ (if in_flight ev = Some Change_handler
                        then map Act (thrustmaster_change_handler (change_status env))
                        else []))"
proof (cases "thrustmaster_model_handler env (query_status env) (response_buffer env)")
  case None
  then show ?thesis by (subst run_urb.simps) (simp add: completion_def)
next
  case (Some ev)
  then have "in_flight ev = None \<or> in_flight ev = Some Change_handler"
    by (auto simp: thrustmaster_model_handler_def submit_change_facts
          split: if_splits option.splits decoded.splits prod.splits)
  with Some show ?thesis
    by (subst run_urb.simps) (auto simp: completion_def run_urb_Change_handler)
qed

lemma run_urb_no_crash: "Crash \<notin> set (run_urb env cb)"
proof (cases cb)
  case Change_handler
  then show ?thesis by (auto simp: run_urb_Change_handler)
next
  case Model_handler
  obtain ev where "thrustmaster_model_handler env (query_status env) (response_buffer env) = Some ev"
    using model_handler_total [OF length_response_buffer, of env "query_status env" env] by auto
  with Model_handler show ?thesis
    by (auto simp: run_urb_Model_handler)
qed

lemma session_no_crash: "Crash \<notin> set (session env)"
  using run_urb_no_crash [of env]
  by (auto simp: session_def Let_def split: option.splits)

text \<open>
  Claim C7. Whatever bytes, and however many, the device returns, the response buffer
  has the size of the struct and the handler's reads stay inside it: the handler never
  faults and no session crashes. The type is read from bytes 0 and 1, low byte first.
  Type 0x0049 and type 0x0047 yield the model from byte 7 and the attachment from byte 6;
  every other type yields the unknown-packet-type error, after which the chain of
  completions ends with that one log line.
\<close>

theorem decode_by_type:
  "(let buf = response_buffer env; t = (buf ! 0, buf ! 1) in
      length buf = sizeof_tm_wheel_response \<and>
      response_type buf = Some t \<and>
      (le16_to_cpu t = 0x0049 \<longleftrightarrow> t = (0x49, 0x00)) \<and>
      (le16_to_cpu t = 0x0047 \<longleftrightarrow> t = (0x47, 0x00)) \<and>
      (le16_to_cpu t = 0x0049 \<or> le16_to_cpu t = 0x0047
         \<longrightarrow> response_decode buf = Some (Fields (buf ! 7) (buf ! 6))) \<and>
      (le16_to_cpu t \<noteq> 0x0049 \<and> le16_to_cpu t \<noteq> 0x0047
         \<longrightarrow> response_decode buf = Some (Unknown_type t) \<and>
             thrustmaster_model_handler env 0 buf = Some [Dev_err (Unknown_packet_type t)] \<and>
             (query_status env = 0
                \<longrightarrow> run_urb env Model_handler = [Act (Dev_err (Unknown_packet_type t))])) \<and>
      thrustmaster_model_handler env status buf \<noteq> None \<and>
      Crash \<notin> set (session env))"
proof -
  let ?buf = "response_buffer env"
  let ?t = "(?buf ! 0, ?buf ! 1)"
  note len = length_response_buffer [of env]
  have a: "length ?buf = sizeof_tm_wheel_response"
    by (simp add: len sizeof_response)
  have b: "response_type ?buf = Some ?t"
    by (simp add: response_type_def peek_def type_offset_def len)
  have c: "le16_to_cpu ?t = 0x0049 \<or> le16_to_cpu ?t = 0x0047
             \<longrightarrow> response_decode ?buf = Some (Fields (?buf ! 7) (?buf ! 6))"
    by (simp add: response_decode_full [OF len])
  have d1: "le16_to_cpu ?t \<noteq> 0x0049 \<and> le16_to_cpu ?t \<noteq> 0x0047
             \<longrightarrow> response_decode ?buf = Some (Unknown_type ?t)"
    by (simp add: response_decode_full [OF len])
  have d2: "le16_to_cpu ?t \<noteq> 0x0049 \<and> le16_to_cpu ?t \<noteq> 0x0047
             \<longrightarrow> thrustmaster_model_handler env 0 ?buf = Some [Dev_err (Unknown_packet_type ?t)]"
    by (simp add: thrustmaster_model_handler_def response_decode_full [OF len])
  have d3: "le16_to_cpu ?t \<noteq> 0x0049 \<and> le16_to_cpu ?t \<noteq> 0x0047
             \<longrightarrow> query_status env = 0
             \<longrightarrow> run_urb env Model_handler = [Act (Dev_err (Unknown_packet_type ?t))]"
    using d2 by (auto simp: run_urb_Model_handler)
  have e: "thrustmaster_model_handler env status ?buf \<noteq> None"
    by (rule model_handler_total [OF len])
  from a b c d1 d2 d3 e session_no_crash [of env] tag_values [of ?t]
  show ?thesis
    unfolding Let_def by blast
qed


theorem decode_by_type_witness:
  "response_buffer short_env = [0x01, 0, 0, 0, 0, 0, 0, 0, 0, 0, 0, 0, 0, 0, 0, 0] \<and>
   le16_to_cpu (0x01, 0x00) \<noteq> 0x0049 \<and> le16_to_cpu (0x01, 0x00) \<noteq> 0x0047 \<and>
   query_status short_env = 0 \<and>
   response_decode (response_buffer short_env) = Some (Unknown_type (0x01, 0x00)) \<and>
   run_urb short_env Model_handler = [Act (Dev_err (Unknown_packet_type (0x01, 0x00)))] \<and>
   le16_to_cpu (0x49, 0x00) = 0x0049 \<and>
   response_decode (response_buffer example_env) = Some (Fields 0x02 0x06)"
proof -
  have buf: "response_buffer short_env = [0x01, 0, 0, 0, 0, 0, 0, 0, 0, 0, 0, 0, 0, 0, 0, 0]"
    by code_simp
  have buf': "response_buffer example_env
                = [0x49, 0, 0, 0, 0, 0, 0x06, 0x02, 0, 0, 0, 0, 0, 0, 0, 0]"
    by code_simp
  have tag: "le16_to_cpu (0x01, 0x00) \<noteq> 0x0049 \<and> le16_to_cpu (0x01, 0x00) \<noteq> 0x0047"
    by (simp add: le16_to_cpu_def)
  have tag': "le16_to_cpu (0x49, 0x00) = 0x0049 \<or> le16_to_cpu (0x49, 0x00) = 0x0047"
    by (simp add: le16_to_cpu_def)
  have st: "query_status short_env = 0"
    by (simp add: short_env_def example_env_def)
  note t = decode_by_type [of short_env 0, unfolded Let_def buf nth_Cons_0 One_nat_def nth_Cons_Suc]
  note u = decode_by_type [of example_env 0, unfolded Let_def buf' nth_Cons_0 One_nat_def nth_Cons_Suc]
  from t tag st
  have a: "response_decode [0x01, 0, 0, 0, 0, 0, 0, 0, 0, 0, 0, 0, 0, 0, 0, 0]
             = Some (Unknown_type (0x01, 0x00))"
    and b: "run_urb short_env Model_handler = [Act (Dev_err (Unknown_packet_type (0x01, 0x00)))]"
    by blast+
  from u tag'
  have c: "response_decode [0x49, 0, 0, 0, 0, 0, 0x06, 0x02, 0, 0, 0, 0, 0, 0, 0, 0]
             = Some (Fields ([0x49, 0, 0, 0, 0, 0, 0x06, 0x02, 0, 0, 0, 0, 0, 0, 0, 0] ! 7)
                            ([0x49, 0, 0, 0, 0, 0, 0x06, 0x02, 0, 0, 0, 0, 0, 0, 0, 0] ! 6))"
    by blast
  have d: "le16_to_cpu (0x49, 0x00) = 0x0049"
    by (simp add: le16_to_cpu_def)
  from c have c': "response_decode (response_buffer example_env) = Some (Fields 0x02 0x06)"
    unfolding buf' by simp
  from buf tag st a b c' d show ?thesis
    unfolding buf by blast
qed

section \<open>The setup packets\<close>

lemma setup_arr_length: "length setup_arr = 5"
  by (simp add: setup_arr_def)

lemma setup_arr_sizes_map: "setup_arr_sizes = map length setup_arr"
  by (simp add: setup_arr_sizes_def setup_arr_def)

lemma setup_arr_sizes_nth:
  "j < length setup_arr \<Longrightarrow> take (setup_arr_sizes ! j) (setup_arr ! j) = setup_arr ! j"
  by (simp add: setup_arr_sizes_map)

lemma acked_end: "acked env (length setup_arr) = 0"
  by (simp add: acked_def)

lemma acked_step:
  "i < length setup_arr \<Longrightarrow>
   acked env i = (if interrupt_msg_ret env i = 0 then Suc (acked env (Suc i)) else 0)"
  by (simp add: acked_def upt_conv_Cons)

lemma interrupts_loop_eq:
  "i \<le> length setup_arr \<Longrightarrow>
   interrupts_loop env i =
     map (interrupt_msg env) [i ..< min (length setup_arr) (Suc (i + acked env i))]
     @ (if i + acked env i < length setup_arr then [Dev_err Setup_data_not_sent] else [])"
proof (induction "length setup_arr - i" arbitrary: i)
  case 0
  then have "i = length setup_arr" by simp
  then show ?case
    by (subst interrupts_loop.simps) (simp add: acked_end)
next
  case (Suc d)
  then have lt: "i < length setup_arr" by simp
  show ?case
  proof (cases "interrupt_msg_ret env i = 0")
    case False
    with lt show ?thesis
      by (subst interrupts_loop.simps)
         (simp add: acked_step setup_arr_sizes_nth interrupt_msg_def min_absorb2)
  next
    case True
    from Suc have "d = length setup_arr - Suc i" and "Suc i \<le> length setup_arr" by simp_all
    note IH = Suc.hyps(1) [OF this]
    have "min (length setup_arr) (Suc (Suc (i + acked env (Suc i)))) > i"
      using lt by simp
    then have upt: "[i ..< min (length setup_arr) (Suc (Suc (i + acked env (Suc i))))]
                  = i # [Suc i ..< min (length setup_arr) (Suc (Suc (i + acked env (Suc i))))]"
      by (rule upt_conv_Cons)
    from lt True show ?thesis
      by (subst interrupts_loop.simps)
         (simp add: acked_step setup_arr_sizes_nth IH upt interrupt_msg_def)
  qed
qed

lemma packets_interrupt_msgs:
  "packets (map (interrupt_msg env) js) = map ((!) setup_arr) js"
  by (induction js) (simp_all add: interrupt_msg_def)

lemma map_nth_upt_take: "map ((!) xs) [0 ..< min (length xs) n] = take n xs"
  by (simp add: list_eq_iff_nth_eq)

lemma packets_interrupts_loop:
  "packets (interrupts_loop env 0) = take (Suc (acked env 0)) setup_arr"
  by (simp add: interrupts_loop_eq packets_append packets_interrupt_msgs map_nth_upt_take)

lemma interrupts_no_submit: "\<not> list_ex is_submit (thrustmaster_interrupts env)"
  by (simp add: thrustmaster_interrupts_def interrupts_loop_eq list_ex_iff interrupt_msg_def)
     auto

lemma acked_all:
  "(\<forall>j<length setup_arr. interrupt_msg_ret env j = 0) \<Longrightarrow> acked env 0 = length setup_arr"
  by (simp add: acked_def takeWhile_eq_all_conv [THEN iffD2])


lemma probe_default:
  "allocs_ok env \<Longrightarrow> le16_to_cpu (idProduct env) \<noteq> 0xb69c \<Longrightarrow>
   thrustmaster_probe env =
     (submit_query_ret env,
      thrustmaster_interrupts env
      @ Usb_submit_urb query_urb (submit_query_ret env)
        # (if submit_query_ret env \<noteq> 0
           then [Dev_err (Submit_urb_error (submit_query_ret env))] else []))"
  by (simp add: allocs_ok_def thrustmaster_probe_def Let_def)

text \<open>
  Claim C8. There are five setup packets. With a send buffer and at least two endpoints,
  thrustmaster_interrupts sends them in table order, each by one synchronous
  \<open>usb_interrupt_msg\<close> call, up to and including the first one whose call fails, and
  logs that failure; all five when none fails. Without a send buffer or with fewer than
  two endpoints it sends none. On the path of a product id other than 0xb69c, the probe
  always continues with the submission of the model query, whatever happened to the
  setup packets.
\<close>

theorem interrupts_then_query:
  "length setup_arr = 5 \<and>
   (send_buf_alloc_ok env \<and> 2 \<le> bNumEndpoints env \<longrightarrow>
      thrustmaster_interrupts env =
        map (interrupt_msg env) [0 ..< min 5 (Suc (acked env 0))]
        @ (if acked env 0 < 5 then [Dev_err Setup_data_not_sent] else []) \<and>
      packets (thrustmaster_interrupts env) = take (Suc (acked env 0)) setup_arr) \<and>
   (send_buf_alloc_ok env \<and> 2 \<le> bNumEndpoints env
      \<and> (\<forall>j<5. interrupt_msg_ret env j = 0) \<longrightarrow>
      packets (thrustmaster_interrupts env) = setup_arr) \<and>
   (\<not> send_buf_alloc_ok env \<or> bNumEndpoints env < 2 \<longrightarrow>
      packets (thrustmaster_interrupts env) = []) \<and>
   (allocs_ok env \<and> le16_to_cpu (idProduct env) \<noteq> 0xb69c \<longrightarrow>
      fst (thrustmaster_probe env) = submit_query_ret env \<and>
      snd (thrustmaster_probe env) =
        thrustmaster_interrupts env
        @ Usb_submit_urb query_urb (submit_query_ret env)
          # (if submit_query_ret env \<noteq> 0
             then [Dev_err (Submit_urb_error (submit_query_ret env))] else []))"
proof (intro conjI impI)
  show "length setup_arr = 5" by (rule setup_arr_length)
next
  assume "send_buf_alloc_ok env \<and> 2 \<le> bNumEndpoints env"
  then have ok: "send_buf_alloc_ok env" "\<not> bNumEndpoints env < 2" by auto
  show "thrustmaster_interrupts env =
        map (interrupt_msg env) [0 ..< min 5 (Suc (acked env 0))]
        @ (if acked env 0 < 5 then [Dev_err Setup_data_not_sent] else [])"
    using interrupts_loop_eq [of 0 env] ok
    by (simp add: thrustmaster_interrupts_def setup_arr_length)
  show "packets (thrustmaster_interrupts env) = take (Suc (acked env 0)) setup_arr"
    using ok by (simp add: thrustmaster_interrupts_def packets_interrupts_loop)
next
  assume h: "send_buf_alloc_ok env \<and> 2 \<le> bNumEndpoints env
               \<and> (\<forall>j<5. interrupt_msg_ret env j = 0)"
  then have ok: "send_buf_alloc_ok env" "\<not> bNumEndpoints env < 2" by auto
  from h have "acked env 0 = length setup_arr"
    by (intro acked_all) (simp add: setup_arr_length)
  with ok show "packets (thrustmaster_interrupts env) = setup_arr"
    by (simp add: thrustmaster_interrupts_def packets_interrupts_loop)
next
  assume "\<not> send_buf_alloc_ok env \<or> bNumEndpoints env < 2"
  then show "packets (thrustmaster_interrupts env) = []"
    by (auto simp: thrustmaster_interrupts_def)
next
  assume h: "allocs_ok env \<and> le16_to_cpu (idProduct env) \<noteq> 0xb69c"
  then have p: "thrustmaster_probe env =
     (submit_query_ret env,
      thrustmaster_interrupts env
      @ Usb_submit_urb query_urb (submit_query_ret env)
        # (if submit_query_ret env \<noteq> 0
           then [Dev_err (Submit_urb_error (submit_query_ret env))] else []))"
    by (intro probe_default) simp_all
  show "fst (thrustmaster_probe env) = submit_query_ret env"
    unfolding p by simp
  show "snd (thrustmaster_probe env) =
        thrustmaster_interrupts env
        @ Usb_submit_urb query_urb (submit_query_ret env)
          # (if submit_query_ret env \<noteq> 0
             then [Dev_err (Submit_urb_error (submit_query_ret env))] else [])"
    unfolding p by simp
qed

theorem interrupts_then_query_witness:
  "(send_buf_alloc_ok flaky_env \<and> 2 \<le> bNumEndpoints flaky_env) \<and>
   acked flaky_env 0 = 2 \<and>
   packets (thrustmaster_interrupts flaky_env) = take 3 setup_arr \<and>
   acked example_env 0 = 5 \<and>
   packets (thrustmaster_interrupts example_env) = setup_arr \<and>
   (allocs_ok flaky_env \<and> le16_to_cpu (idProduct flaky_env) \<noteq> 0xb69c) \<and>
   snd (thrustmaster_probe flaky_env) =
     thrustmaster_interrupts flaky_env @ [Usb_submit_urb query_urb 0] \<and>
   packets (thrustmaster_interrupts (example_env\<lparr>bNumEndpoints := 1\<rparr>)) = []"
proof -
  have ok: "send_buf_alloc_ok flaky_env \<and> 2 \<le> bNumEndpoints flaky_env"
    by (simp add: flaky_env_def example_env_def)
  have ack: "acked flaky_env 0 = 2"
    by code_simp
  have ok': "send_buf_alloc_ok example_env \<and> 2 \<le> bNumEndpoints example_env
               \<and> (\<forall>j<5. interrupt_msg_ret example_env j = 0)"
    by (simp add: example_env_def)
  have df: "allocs_ok flaky_env \<and> le16_to_cpu (idProduct flaky_env) \<noteq> 0xb69c"
    by (simp add: allocs_ok_def flaky_env_def example_env_def le16_to_cpu_def)
  have few: "\<not> send_buf_alloc_ok (example_env\<lparr>bNumEndpoints := 1\<rparr>)
               \<or> bNumEndpoints (example_env\<lparr>bNumEndpoints := 1\<rparr>) < 2"
    by simp
  have sr: "submit_query_ret flaky_env = 0"
    by (simp add: flaky_env_def example_env_def)
  note t = interrupts_then_query [of flaky_env]
  note u = interrupts_then_query [of example_env]
  note v = interrupts_then_query [of "example_env\<lparr>bNumEndpoints := 1\<rparr>"]
  from t [THEN conjunct2, THEN conjunct1, THEN mp, OF ok, THEN conjunct2] ack
  have a: "packets (thrustmaster_interrupts flaky_env) = take 3 setup_arr"
    by (simp add: numeral_3_eq_3)
  from u [THEN conjunct2, THEN conjunct2, THEN conjunct1, THEN mp, OF ok']
  have b: "packets (thrustmaster_interrupts example_env) = setup_arr" .
  from t [THEN conjunct2, THEN conjunct2, THEN conjunct2, THEN conjunct2, THEN mp, OF df,
          THEN conjunct2] sr
  have c: "snd (thrustmaster_probe flaky_env) =
     thrustmaster_interrupts flaky_env @ [Usb_submit_urb query_urb 0]"
    by simp
  from v [THEN conjunct2, THEN conjunct2, THEN conjunct2, THEN conjunct1, THEN mp, OF few]
  have d: "packets (thrustmaster_interrupts (example_env\<lparr>bNumEndpoints := 1\<rparr>)) = []" .
  have ack': "acked example_env 0 = 5"
    by code_simp
  from ok ack a ack' b df c d show ?thesis by blast
qed

section \<open>The switch command is submitted at most once\<close>

lemma model_handler_change_values:
  assumes "thrustmaster_model_handler env status response = Some evs"
  shows "change_values evs = [] \<or>
         (status = 0 \<and>
          (\<exists>m a twi found. response_decode response = Some (Fields m a)
             \<and> resolve m a = Some (twi, found)
             \<and> change_values evs = [cpu_to_le16 (switch_value (tm_wheels_infos ! twi))]))"
proof (cases "status = 0")
  case False
  with assms show ?thesis by (auto simp: thrustmaster_model_handler_def)
next
  case True
  show ?thesis
  proof (cases "response_decode response")
    case None
    with assms True show ?thesis by (simp add: thrustmaster_model_handler_def)
  next
    case (Some d)
    show ?thesis
    proof (cases d)
      case (Unknown_type t)
      with assms True Some show ?thesis by (auto simp: thrustmaster_model_handler_def)
    next
      case (Fields m a)
      show ?thesis
      proof (cases "resolve m a")
        case None
        with assms True Some Fields show ?thesis
          by (auto simp: thrustmaster_model_handler_def)
      next
        case r: (Some p)
        obtain twi found where p: "p = (twi, found)" by (cases p)
        from assms True Some Fields r p
        have "change_values evs = [cpu_to_le16 (switch_value (tm_wheels_infos ! twi))]"
          by (auto simp: thrustmaster_model_handler_def submit_change_facts)
        with True Some Fields r p show ?thesis by blast
      qed
    qed
  qed
qed

lemma model_handler_failure:
  assumes "status \<noteq> 0 \<or> (\<exists>t. response_decode response = Some (Unknown_type t))
             \<or> (\<exists>m a. response_decode response = Some (Fields m a) \<and> resolve m a = None)"
  shows "\<exists>evs. thrustmaster_model_handler env status response = Some evs
               \<and> \<not> list_ex is_submit evs \<and> in_flight evs = None"
  using assms
  by (auto simp: thrustmaster_model_handler_def)

lemma change_values_run_urb_Model_handler:
  "change_values (acts (run_urb env Model_handler)) = [] \<or>
   (query_status env = 0 \<and>
    (\<exists>m a twi found. response_decode (response_buffer env) = Some (Fields m a)
       \<and> resolve m a = Some (twi, found)
       \<and> change_values (acts (run_urb env Model_handler))
           = [cpu_to_le16 (switch_value (tm_wheels_infos ! twi))]))"
proof -
  obtain ev where h: "thrustmaster_model_handler env (query_status env) (response_buffer env) = Some ev"
    using model_handler_total [OF length_response_buffer, of env "query_status env" env] by auto
  then have "change_values (acts (run_urb env Model_handler)) = change_values ev"
    by (simp add: run_urb_Model_handler acts_append acts_map_Act change_values_append
          change_values_no_submit change_handler_quiet)
  with model_handler_change_values [OF h] show ?thesis by simp
qed

lemma session_default:
  assumes "allocs_ok env" and "le16_to_cpu (idProduct env) \<noteq> 0xb69c"
  shows "session env =
           map Act (thrustmaster_interrupts env)
           @ Act (Usb_submit_urb query_urb (submit_query_ret env))
             # (if submit_query_ret env \<noteq> 0
                then [Act (Dev_err (Submit_urb_error (submit_query_ret env)))]
                else run_urb env Model_handler)"
  by (simp add: session_def probe_default [OF assms] in_flight_append
        in_flight_no_submit interrupts_no_submit query_urb_def)

lemma change_values_session_default:
  assumes "allocs_ok env" and "le16_to_cpu (idProduct env) \<noteq> 0xb69c"
  shows "change_values (acts (session env)) =
           (if submit_query_ret env \<noteq> 0 then []
            else change_values (acts (run_urb env Model_handler)))"
  by (simp add: session_default [OF assms] acts_append acts_map_Act change_values_append
        change_values_no_submit interrupts_no_submit query_urb_def model_request_def)

lemma change_values_session_identity_A:
  assumes "allocs_ok env" and "le16_to_cpu (idProduct env) = 0xb69c"
  shows "change_values (acts (session env)) = [cpu_to_le16 0x000b]"
  by (simp add: session_identity_A [OF assms] acts_append acts_map_Act change_values_append
        submit_change_facts change_values_no_submit change_handler_quiet)

text \<open>
  Claim C6. In every session at most one switch command is submitted. For a product id
  other than 0xb69c, a session that submits the switch command has a query that
  completed with status 0, a response that decoded to a model and an attachment, and a
  successful resolution, and the value sent is the switch value of the resolved entry.
  When the query completion reports an error status, or the response type is not
  recognised, or the model is unknown, the model handler returns without submitting any
  URB and leaves none in flight.
\<close>

theorem switch_submitted_at_most_once:
  "length (change_values (acts (session env))) \<le> 1 \<and>
   (le16_to_cpu (idProduct env) \<noteq> 0xb69c \<and> change_values (acts (session env)) \<noteq> [] \<longrightarrow>
      query_status env = 0 \<and>
      (\<exists>m a twi found. response_decode (response_buffer env) = Some (Fields m a)
         \<and> resolve m a = Some (twi, found)
         \<and> change_values (acts (session env))
             = [cpu_to_le16 (switch_value (tm_wheels_infos ! twi))])) \<and>
   (status \<noteq> 0 \<or> (\<exists>t. response_decode response = Some (Unknown_type t))
      \<or> (\<exists>m a. response_decode response = Some (Fields m a) \<and> resolve m a = None) \<longrightarrow>
      (\<exists>evs. thrustmaster_model_handler env status response = Some evs
             \<and> \<not> list_ex is_submit evs \<and> in_flight evs = None))"
proof (intro conjI impI)
  show "length (change_values (acts (session env))) \<le> 1"
  proof (cases "allocs_ok env")
    case False
    then show ?thesis by (simp add: session_alloc_failure)
  next
    case True
    show ?thesis
    proof (cases "le16_to_cpu (idProduct env) = 0xb69c")
      case idA: True
      show ?thesis by (simp add: change_values_session_identity_A [OF True idA])
    next
      case dflt: False
      from change_values_run_urb_Model_handler [of env]
      have "length (change_values (acts (run_urb env Model_handler))) \<le> 1" by auto
      then show ?thesis by (simp add: change_values_session_default [OF True dflt])
    qed
  qed
next
  assume h: "le16_to_cpu (idProduct env) \<noteq> 0xb69c \<and> change_values (acts (session env)) \<noteq> []"
  then have dflt: "le16_to_cpu (idProduct env) \<noteq> 0xb69c"
    and ne: "change_values (acts (session env)) \<noteq> []" by simp_all
  have ok: "allocs_ok env"
  proof (rule ccontr)
    assume "\<not> allocs_ok env"
    then have "session env = []" by (rule session_alloc_failure)
    with ne show False by simp
  qed
  note cv = change_values_session_default [OF ok dflt]
  from ne cv have eq: "change_values (acts (session env))
                        = change_values (acts (run_urb env Model_handler))"
    by (simp split: if_splits)
  from change_values_run_urb_Model_handler [of env] ne
  have r: "query_status env = 0 \<and>
    (\<exists>m a twi found. response_decode (response_buffer env) = Some (Fields m a)
       \<and> resolve m a = Some (twi, found)
       \<and> change_values (acts (session env))
           = [cpu_to_le16 (switch_value (tm_wheels_infos ! twi))])"
    unfolding eq by blast
  from r show "query_status env = 0" by (rule conjunct1)
  from r show "\<exists>m a twi found. response_decode (response_buffer env) = Some (Fields m a)
         \<and> resolve m a = Some (twi, found)
         \<and> change_values (acts (session env))
             = [cpu_to_le16 (switch_value (tm_wheels_infos ! twi))]" by (rule conjunct2)
next
  assume "status \<noteq> 0 \<or> (\<exists>t. response_decode response = Some (Unknown_type t))
      \<or> (\<exists>m a. response_decode response = Some (Fields m a) \<and> resolve m a = None)"
  then show "\<exists>evs. thrustmaster_model_handler env status response = Some evs
             \<and> \<not> list_ex is_submit evs \<and> in_flight evs = None"
    by (rule model_handler_failure)
qed


theorem switch_submitted_at_most_once_witness:
  "(le16_to_cpu (idProduct example_env) \<noteq> 0xb69c
      \<and> change_values (acts (session example_env)) \<noteq> []) \<and>
   change_values (acts (session example_env)) = [(0x05, 0x00)] \<and>
   length (change_values (acts (session example_env))) \<le> 1 \<and>
   query_status example_env = 0 \<and>
   (- 71 :: int) \<noteq> 0 \<and>
   thrustmaster_model_handler example_env (- 71) [] = Some [Dev_err (Model_urb_failed (- 71))]"
proof -
  have cv: "change_values (acts (session example_env)) = [(0x05, 0x00)]"
    by code_simp
  have h: "le16_to_cpu (idProduct example_env) \<noteq> 0xb69c
             \<and> change_values (acts (session example_env)) \<noteq> []"
    unfolding cv by (simp add: example_env_def le16_to_cpu_def)
  note t = switch_submitted_at_most_once [of example_env "- 71" "[]"]
  from t have a: "length (change_values (acts (session example_env))) \<le> 1"
    by (rule conjunct1)
  from t [THEN conjunct2, THEN conjunct1, THEN mp, OF h]
  have b: "query_status example_env = 0" by (rule conjunct1)
  have f: "(- 71 :: int) \<noteq> 0 \<or> (\<exists>t. response_decode [] = Some (Unknown_type t))
      \<or> (\<exists>m a. response_decode [] = Some (Fields m a) \<and> resolve m a = None)"
    by simp
  from t [THEN conjunct2, THEN conjunct2, THEN mp, OF f]
  obtain evs where e: "thrustmaster_model_handler example_env (- 71) [] = Some evs"
    and "\<not> list_ex is_submit evs" by blast
  have "thrustmaster_model_handler example_env (- 71) [] = Some [Dev_err (Model_urb_failed (- 71))]"
    by (simp add: thrustmaster_model_handler_def)
  with h cv a b show ?thesis by simp
qed

end
